theory Spec2Isabelle
  imports Main
begin

section \<open>Status values and exceptions\<close>

text \<open>
  Modelled from the spec: the class \<open>osquery::Status\<close> of \<open>osquery/status.h\<close>, which
  \<open>filesystem.cpp\<close> only uses. The spec calls it Outcome: a numeric code (0 is success,
  anything else failure) and a human-readable message. \<open>Status(c, m)\<close> builds one and
  \<open>ok()\<close> tests the code against 0.
\<close>

datatype Status = Status (code: int) (message: string)

definition ok :: "Status \<Rightarrow> bool" where
  "ok s = (code s = 0)"

text \<open>
  The C++ exceptions that the functions of \<open>filesystem.cpp\<close> can meet: Boost.Filesystem's
  \<open>filesystem_error\<close>, Boost.PropertyTree's \<open>xml_parser_error\<close> and \<open>ptree_bad_path\<close>,
  and the allocation failure of \<open>new char[len]\<close>. \<open>what\<close> is the text of \<open>e.what()\<close>.
  A function that lets an exception escape returns \<open>Inl\<close> of it.
\<close>

datatype exn =
    filesystem_error string
  | xml_parser_error string
  | ptree_bad_path string
  | bad_alloc

fun what :: "exn \<Rightarrow> string" where
  "what (filesystem_error m) = m"
| "what (xml_parser_error m) = m"
| "what (ptree_bad_path p) = ''No such node ('' @ p @ '')''"
| "what bad_alloc = ''std::bad_alloc''"


section \<open>The operating system as seen by filesystem.cpp\<close>

text \<open>
  The file system is a flat table from path strings to nodes. A node carries the mode
  bits and the owner that \<open>open\<close>, \<open>chmod\<close> and \<open>std::ifstream\<close> consult, and either
  the bytes of a regular file or what iterating a directory yields.

  \<^item> \<open>Regular c d\<close>: a regular file holding \<open>c\<close>; \<open>d\<close> marks a file whose reads fail
    (an I/O error of the medium).
  \<^item> \<open>Directory evs e\<close>: a directory. \<open>evs\<close> is what the host's directory iteration
    produces, in the host's order: the names of the direct children, cut short by a
    \<open>Fault\<close> where the iteration raises an error (at the head of the list when the
    directory cannot be opened at all). \<open>e\<close> is the position that seeking to the end of
    a stream opened on the directory reports, which depends on the host.

  Group permissions are left out: a caller who is not the owner is checked against the
  bits for others, and user 0 passes every check.
\<close>

type_synonym path = string

datatype dir_event = Entry string | Fault string

datatype payload =
    Regular string bool
  | Directory "dir_event list" nat

record node =
  payload :: payload
  mode :: int
  owner :: nat

text \<open>
  \<^item> \<open>lookup_fault\<close>: the paths whose resolution fails with an error other than
    ``not found'' (search permission denied on a parent, a symbolic-link loop, ...),
    with the text of the error.
  \<^item> \<open>create_denied\<close>: the paths at which the host refuses to create a file (the parent
    directory is missing or not writable).
  \<^item> \<open>free_space\<close>: the number of bytes the file system can still take.
  \<^item> \<open>open_fds\<close>: the descriptor table of the process, descriptor and path opened;
    \<open>close_log\<close>: every descriptor passed to \<open>close\<close>, latest first.
\<close>

record os =
  nodes :: "path \<Rightarrow> node option"
  lookup_fault :: "path \<Rightarrow> string option"
  create_denied :: "path \<Rightarrow> bool"
  euid :: nat
  free_space :: nat
  open_fds :: "(int \<times> path) list"
  close_log :: "int list"

definition has_bit :: "int \<Rightarrow> int \<Rightarrow> bool" where
  "has_bit m b = ((m div b) mod 2 = 1)"

text \<open>\<open>want\<close> is 4 for reading and 2 for writing, as in the octal mode digits.\<close>

definition may_access :: "os \<Rightarrow> node \<Rightarrow> int \<Rightarrow> bool" where
  "may_access s n want =
     (if euid s = 0 then True
      else if owner n = euid s then has_bit (mode n) (want * 64)
      else has_bit (mode n) want)"

subsection \<open>Boost.Filesystem queries\<close>

datatype file_type = file_not_found | regular_file | directory_file

text \<open>
  \<open>boost::filesystem::status(p)\<close>: the empty path and a missing path are ``not found'';
  any other failure of the lookup is thrown as a \<open>filesystem_error\<close>.
\<close>

definition status :: "os \<Rightarrow> path \<Rightarrow> exn + file_type" where
  "status s p =
     (if p = [] then Inr file_not_found
      else case lookup_fault s p of
        Some m \<Rightarrow> Inl (filesystem_error m)
      | None \<Rightarrow>
          (case nodes s p of
             None \<Rightarrow> Inr file_not_found
           | Some n \<Rightarrow>
               (case payload n of
                  Regular c d \<Rightarrow> Inr regular_file
                | Directory evs e \<Rightarrow> Inr directory_file)))"

definition fs_exists :: "os \<Rightarrow> path \<Rightarrow> exn + bool" where
  "fs_exists s p =
     (case status s p of Inl e \<Rightarrow> Inl e | Inr t \<Rightarrow> Inr (t \<noteq> file_not_found))"

definition is_directory :: "os \<Rightarrow> path \<Rightarrow> exn + bool" where
  "is_directory s p =
     (case status s p of Inl e \<Rightarrow> Inl e | Inr t \<Rightarrow> Inr (t = directory_file))"

text \<open>
  \<open>operator/\<close> of \<open>boost::filesystem::path\<close>: a separator is put between the directory
  and the name unless the directory is empty or already ends with one.
\<close>

definition path_append :: "path \<Rightarrow> string \<Rightarrow> path" where
  "path_append p name =
     (if p = [] then name
      else if last p = CHR ''/'' then p @ name
      else p @ ''/'' @ name)"

text \<open>
  \<open>directory_iterator(path)\<close> and its increments: each step yields the full path of the
  next entry or throws. A path that is no directory cannot be opened.
\<close>

definition directory_iterator :: "os \<Rightarrow> path \<Rightarrow> (exn + path) list" where
  "directory_iterator s p =
     (case nodes s p of
        None \<Rightarrow> [Inl (filesystem_error ''No such file or directory'')]
      | Some n \<Rightarrow>
          (case payload n of
             Regular c d \<Rightarrow> [Inl (filesystem_error ''Not a directory'')]
           | Directory evs e \<Rightarrow>
               map (\<lambda>ev. case ev of
                      Entry name \<Rightarrow> Inr (path_append p name)
                    | Fault m \<Rightarrow> Inl (filesystem_error m)) evs))"

subsection \<open>POSIX calls\<close>

text \<open>\<open>open\<close> returns the lowest descriptor number that is not in use.\<close>

fun first_free :: "nat \<Rightarrow> int \<Rightarrow> int list \<Rightarrow> int" where
  "first_free 0 n used = n"
| "first_free (Suc k) n used = (if n \<in> set used then first_free k (n + 1) used else n)"

definition lowest_free :: "int list \<Rightarrow> int" where
  "lowest_free used = first_free (length used) 0 used"

text \<open>
  \<open>open(path, O_CREAT | O_APPEND | O_WRONLY, perms)\<close>: \<open>-1\<close> on failure. An existing
  regular file is opened when the caller may write to it and keeps its mode; a missing
  one is created empty, owned by the caller. The mode of a new file is written without
  the process's umask, since the \<open>chmod\<close> that follows in \<open>writeTextFile\<close> sets it anyway.
\<close>

definition sys_open :: "os \<Rightarrow> path \<Rightarrow> int \<Rightarrow> int \<times> os" where
  "sys_open s p perms =
     (let fd = lowest_free (map fst (open_fds s)) in
      if p = [] then (- 1, s)
      else case lookup_fault s p of
        Some m \<Rightarrow> (- 1, s)
      | None \<Rightarrow>
          (case nodes s p of
             None \<Rightarrow>
               if create_denied s p then (- 1, s)
               else (fd, s\<lparr>nodes := (nodes s)(p \<mapsto>
                              \<lparr>payload = Regular [] False, mode = perms mod 4096,
                               owner = euid s\<rparr>),
                            open_fds := (fd, p) # open_fds s\<rparr>)
           | Some n \<Rightarrow>
               (case payload n of
                  Directory evs e \<Rightarrow> (- 1, s)
                | Regular c d \<Rightarrow>
                    if may_access s n 2 then (fd, s\<lparr>open_fds := (fd, p) # open_fds s\<rparr>)
                    else (- 1, s))))"

text \<open>\<open>chmod(path, perms)\<close>: only the owner and user 0 may change the mode.\<close>

definition sys_chmod :: "os \<Rightarrow> path \<Rightarrow> int \<Rightarrow> int \<times> os" where
  "sys_chmod s p perms =
     (if p = [] then (- 1, s)
      else case lookup_fault s p of
        Some m \<Rightarrow> (- 1, s)
      | None \<Rightarrow>
          (case nodes s p of
             None \<Rightarrow> (- 1, s)
           | Some n \<Rightarrow>
               if euid s = 0 \<or> owner n = euid s
               then (0, s\<lparr>nodes := (nodes s)(p \<mapsto> n\<lparr>mode := perms mod 4096\<rparr>)\<rparr>)
               else (- 1, s)))"

text \<open>
  \<open>write(fd, buf, count)\<close> on a descriptor opened with \<open>O_APPEND\<close>: the bytes go to the
  end of the file. When the file system cannot take all of them the call writes what
  fits and returns that count, or \<open>-1\<close> when nothing fits.
\<close>

definition sys_write :: "os \<Rightarrow> int \<Rightarrow> string \<Rightarrow> int \<times> os" where
  "sys_write s fd buf =
     (case map_of (open_fds s) fd of
        None \<Rightarrow> (- 1, s)
      | Some p \<Rightarrow>
          (case nodes s p of
             None \<Rightarrow> (- 1, s)
           | Some n \<Rightarrow>
               (case payload n of
                  Directory evs e \<Rightarrow> (- 1, s)
                | Regular c d \<Rightarrow>
                    let k = min (length buf) (free_space s) in
                    if k = 0 \<and> buf \<noteq> [] then (- 1, s)
                    else (int k,
                          s\<lparr>nodes := (nodes s)(p \<mapsto> n\<lparr>payload := Regular (c @ take k buf) d\<rparr>),
                            free_space := free_space s - k\<rparr>))))"

definition sys_close :: "os \<Rightarrow> int \<Rightarrow> os" where
  "sys_close s fd =
     s\<lparr>open_fds := filter (\<lambda>e. fst e \<noteq> fd) (open_fds s), close_log := fd # close_log s\<rparr>"

subsection \<open>std::ifstream\<close>

text \<open>
  Opening \<open>std::ifstream file_h(path)\<close>: \<open>None\<close> when the stream is not good after the
  constructor. Otherwise the position at the end of the stream and the bytes a read
  can deliver. The stream's own descriptor is closed by the stream and is not entered
  in \<open>open_fds\<close>.
\<close>

definition ifstream_open :: "os \<Rightarrow> path \<Rightarrow> (nat \<times> string) option" where
  "ifstream_open s p =
     (if p = [] then None
      else case lookup_fault s p of
        Some m \<Rightarrow> None
      | None \<Rightarrow>
          (case nodes s p of
             None \<Rightarrow> None
           | Some n \<Rightarrow>
               if may_access s n 4
               then (case payload n of
                       Regular c d \<Rightarrow> Some (length c, if d then [] else c)
                     | Directory evs e \<Rightarrow> Some (e, []))
               else None))"

text \<open>\<open>int len = file_h.tellg()\<close>: the stream position narrowed to a 32-bit signed int.\<close>

definition narrow_int :: "nat \<Rightarrow> int" where
  "narrow_int n = (int n + 2 ^ 31) mod 2 ^ 32 - 2 ^ 31"


section \<open>filesystem.cpp\<close>

subsection \<open>pathExists, isDirectory, getDirectory\<close>

definition pathExists :: "os \<Rightarrow> path \<Rightarrow> exn + Status" where
  "pathExists s path =
     (if length path = 0 then Inr (Status 1 ''-1'')
      else case fs_exists s path of
        Inl e \<Rightarrow> Inl e
      | Inr present \<Rightarrow>
          if \<not> present then Inr (Status 1 ''0'') else Inr (Status 0 ''1''))"



subsection \<open>writeTextFile\<close>

text \<open>The result is the Status and the operating system after the call.\<close>

definition writeTextFile :: "os \<Rightarrow> path \<Rightarrow> string \<Rightarrow> int \<Rightarrow> bool \<Rightarrow> Status \<times> os" where
  "writeTextFile s path content permissions force_permissions =
     (case sys_open s path permissions of
        (output_fd, s1) \<Rightarrow>
          if output_fd \<le> 0 then (Status 1 ''Could not create file'', s1)
          else (case sys_chmod s1 path permissions of
            (rc, s2) \<Rightarrow>
              if rc \<noteq> 0 then (Status 1 ''Failed to change permissions'', s2)
              else (case sys_write s2 output_fd content of
                (bytes, s3) \<Rightarrow>
                  if bytes \<noteq> int (length content)
                  then (Status 1 ''Failed to write contents'', sys_close s3 output_fd)
                  else (Status 0 ''OK'', sys_close s3 output_fd))))"

subsection \<open>readFile\<close>

text \<open>
  The result is the Status and the value of the out-parameter \<open>content\<close>. A negative
  \<open>len\<close> makes \<open>new char[len]\<close> throw, and nothing in \<open>readFile\<close> catches it.
  \<open>file_h.read(buffer, len)\<close> leaves the stream good exactly when \<open>len\<close> bytes arrived.
\<close>

definition readFile :: "os \<Rightarrow> path \<Rightarrow> string \<Rightarrow> exn + (Status \<times> string)" where
  "readFile s path content =
     (case pathExists s path of
        Inl e \<Rightarrow> Inl e
      | Inr path_exists \<Rightarrow>
          if \<not> ok path_exists then Inr (path_exists, content)
          else (case ifstream_open s path of
                  None \<Rightarrow> Inr (Status 1 ''Could not open file for reading'', content)
                | Some (end_pos, avail) \<Rightarrow>
                    let len = narrow_int end_pos in
                    if len < 0 then Inl bad_alloc
                    else if length avail < nat len
                    then Inr (Status 1 ''Could not read file'', content)
                    else Inr (Status 0 ''OK'', take (nat len) avail)))"

subsection \<open>listFilesInDirectory\<close>

text \<open>
  The loop over the directory iterator: every entry is pushed onto \<open>results\<close>; a throw
  leaves the loop with what was pushed so far.
\<close>

fun list_loop :: "(exn + path) list \<Rightarrow> string list \<Rightarrow> exn option \<times> string list" where
  "list_loop [] results = (None, results)"
| "list_loop (Inr p # rest) results = list_loop rest (results @ [p])"
| "list_loop (Inl e # rest) results = (Some e, results)"

text \<open>The result is the Status and the vector \<open>results\<close> after the call.\<close>

definition listFilesInDirectory :: "os \<Rightarrow> path \<Rightarrow> string list \<Rightarrow> Status \<times> string list" where
  "listFilesInDirectory s path results =
     (case fs_exists s path of
        Inl e \<Rightarrow> (Status 1 (what e), results)
      | Inr present \<Rightarrow>
          if \<not> present then (Status 1 ''Directory not found'', results)
          else (case is_directory s path of
                  Inl e \<Rightarrow> (Status 1 (what e), results)
                | Inr d \<Rightarrow>
                    if \<not> d then (Status 1 ''Supplied path is not a directory'', results)
                    else (case list_loop (directory_iterator s path) results of
                            (Some e, results') \<Rightarrow> (Status 1 (what e), results')
                          | (None, results') \<Rightarrow> (Status 0 ''OK'', results'))))"

subsection \<open>parseTomcatUserConfig\<close>

text \<open>
  A Boost property tree: every node has its data and an ordered list of keyed children.
  \<open>read_xml\<close> puts the attributes of an element under a child with key \<open><xmlattr>\<close>.
  \<open>get_child\<close> walks a path given as its list of keys (the path string is the keys
  joined by dots) and throws \<open>ptree_bad_path\<close> when a key has no child;
  \<open>get<std::string>\<close> returns the data of the node found.
\<close>

datatype ptree = PTree (data: string) (children: "(string \<times> ptree) list")

fun walk_path :: "ptree \<Rightarrow> string list \<Rightarrow> ptree option" where
  "walk_path t [] = Some t"
| "walk_path t (k # ks) =
     (case map_of (children t) k of None \<Rightarrow> None | Some c \<Rightarrow> walk_path c ks)"

fun dotted :: "string list \<Rightarrow> string" where
  "dotted [] = []"
| "dotted [k] = k"
| "dotted (k # ks) = k @ ''.'' @ dotted ks"

definition get_child :: "ptree \<Rightarrow> string list \<Rightarrow> exn + ptree" where
  "get_child t ks =
     (case walk_path t ks of None \<Rightarrow> Inl (ptree_bad_path (dotted ks)) | Some c \<Rightarrow> Inr c)"

definition get_string :: "ptree \<Rightarrow> string list \<Rightarrow> exn + string" where
  "get_string t ks = (case get_child t ks of Inl e \<Rightarrow> Inl e | Inr c \<Rightarrow> Inr (data c))"

text \<open>
  The loop over the children of \<open>tomcat-users\<close>: \<open>Some\<close> Status when the inner handler
  returned, with the credentials pushed until then.
\<close>

fun parse_users ::
  "(string \<times> ptree) list \<Rightarrow> (string \<times> string) list \<Rightarrow> Status option \<times> (string \<times> string) list" where
  "parse_users [] credentials = (None, credentials)"
| "parse_users ((k, t) # rest) credentials =
     (if k = ''user'' then
        (case get_string t [''<xmlattr>'', ''username''] of
           Inl e \<Rightarrow> (Some (Status 1 (what e)), credentials)
         | Inr username \<Rightarrow>
             (case get_string t [''<xmlattr>'', ''password''] of
                Inl e \<Rightarrow> (Some (Status 1 (what e)), credentials)
              | Inr password \<Rightarrow> parse_users rest (credentials @ [(username, password)])))
      else parse_users rest credentials)"

text \<open>
  \<open>read_xml\<close> is Boost's XML parser, a parameter: the tree of the document, or the
  \<open>xml_parser_error\<close> it throws. The result is the Status and the vector \<open>credentials\<close>
  after the call. The \<open>LOG(ERROR)\<close> lines write to the process log only.
\<close>

definition parseTomcatUserConfig ::
  "(string \<Rightarrow> exn + ptree) \<Rightarrow> string \<Rightarrow> (string \<times> string) list \<Rightarrow> Status \<times> (string \<times> string) list" where
  "parseTomcatUserConfig read_xml content credentials =
     (case read_xml content of
        Inl e \<Rightarrow> (Status 1 (what e), credentials)
      | Inr tree \<Rightarrow>
          (case get_child tree [''tomcat-users''] of
             Inl e \<Rightarrow> (Status 1 (what e), credentials)
           | Inr users \<Rightarrow>
               (case parse_users (children users) credentials of
                  (Some st, credentials') \<Rightarrow> (st, credentials')
                | (None, credentials') \<Rightarrow> (Status 0 ''OK'', credentials'))))"


section \<open>Notions used in the statements\<close>

text \<open>The bytes of the regular file at a path, if there is one.\<close>

definition file_contents :: "os \<Rightarrow> path \<Rightarrow> string option" where
  "file_contents s p =
     (case nodes s p of
        None \<Rightarrow> None
      | Some n \<Rightarrow> (case payload n of Regular c d \<Rightarrow> Some c | Directory evs e \<Rightarrow> None))"

text \<open>
  An attribute of an element, the \<open>user\<close> elements among the children of a node, a
  \<open>user\<close> element that has both attributes, and the credential it stands for.
\<close>

definition attribute :: "ptree \<Rightarrow> string \<Rightarrow> string option" where
  "attribute t name = map_option data (walk_path t [''<xmlattr>'', name])"

definition user_elements :: "(string \<times> ptree) list \<Rightarrow> ptree list" where
  "user_elements cs = map snd (filter (\<lambda>c. fst c = ''user'') cs)"

definition user_complete :: "ptree \<Rightarrow> bool" where
  "user_complete t = (attribute t ''username'' \<noteq> None \<and> attribute t ''password'' \<noteq> None)"

definition credential_of :: "ptree \<Rightarrow> string \<times> string" where
  "credential_of t = (the (attribute t ''username''), the (attribute t ''password''))"


section \<open>Examples\<close>

text \<open>
  A host for running the functions on concrete inputs. The caller is the ordinary user
  1000 with the three standard descriptors open.
  \<^item> \<open>/etc/hosts\<close>: a world-readable file of user 0;
  \<^item> \<open>/etc/shadow\<close>: a file only user 0 may read;
  \<^item> \<open>/tmp/shared.log\<close>: a world-writable file of user 0;
  \<^item> \<open>/mnt/usb/blob\<close>: a file on a failing medium;
  \<^item> \<open>/srv\<close>: a directory with the entries a, b and c;
  \<^item> \<open>/root\<close>: a directory the caller cannot open;
  \<^item> \<open>/mnt/usb\<close>: a directory whose iteration fails after the first entry;
  \<^item> \<open>/root/secret\<close>: a path below a directory the caller may not search.
\<close>

definition demo_nodes :: "path \<Rightarrow> node option" where
  "demo_nodes =
     [''/etc/hosts'' \<mapsto> \<lparr>payload = Regular ''127.0.0.1 localhost'' False, mode = 420, owner = 0\<rparr>,
      ''/etc/shadow'' \<mapsto> \<lparr>payload = Regular ''root:x'' False, mode = 384, owner = 0\<rparr>,
      ''/tmp/shared.log'' \<mapsto> \<lparr>payload = Regular ''old'' False, mode = 438, owner = 0\<rparr>,
      ''/mnt/usb/blob'' \<mapsto> \<lparr>payload = Regular ''data'' True, mode = 420, owner = 1000\<rparr>,
      ''/srv'' \<mapsto> \<lparr>payload = Directory [Entry ''a'', Entry ''b'', Entry ''c''] 4096,
                   mode = 493, owner = 0\<rparr>,
      ''/root'' \<mapsto> \<lparr>payload = Directory [Fault ''Permission denied''] 4096,
                    mode = 448, owner = 0\<rparr>,
      ''/mnt/usb'' \<mapsto> \<lparr>payload = Directory [Entry ''x'', Fault ''Input/output error'', Entry ''y''] 4096,
                       mode = 493, owner = 0\<rparr>]"

definition demo_os :: os where
  "demo_os =
     \<lparr>nodes = demo_nodes,
      lookup_fault = [''/root/secret'' \<mapsto> ''Permission denied''],
      create_denied = (\<lambda>p. p = ''/etc/passwd.new''),
      euid = 1000,
      free_space = 64,
      open_fds = [(0, ''/dev/stdin''), (1, ''/dev/stdout''), (2, ''/dev/stderr'')],
      close_log = []\<rparr>"



text \<open>
  A document with a complete \<open>user\<close> element followed by one without a password, and
  the tree \<open>read_xml\<close> builds for it. \<open>demo_read_xml\<close> stands for the parser on the
  examples: it knows this document and rejects every other text.
\<close>

definition demo_xml_partial :: string where
  "demo_xml_partial =
     ''<tomcat-users><user username='alice' password='secret1'/><user username='bob'/></tomcat-users>''"

definition demo_alice :: ptree where
  "demo_alice =
     PTree [] [(''<xmlattr>'', PTree [] [(''username'', PTree ''alice'' []),
                                         (''password'', PTree ''secret1'' [])])]"

definition demo_bob :: ptree where
  "demo_bob = PTree [] [(''<xmlattr>'', PTree [] [(''username'', PTree ''bob'' [])])]"

definition demo_users :: ptree where
  "demo_users = PTree [] [(''user'', demo_alice), (''user'', demo_bob)]"

definition demo_tree_partial :: ptree where
  "demo_tree_partial = PTree [] [(''tomcat-users'', demo_users)]"

definition demo_read_xml :: "string \<Rightarrow> exn + ptree" where
  "demo_read_xml content =
     (if content = demo_xml_partial then Inr demo_tree_partial
      else Inl (xml_parser_error ''not a document of the examples''))"


section \<open>Facts about the example host\<close>

lemma demo_status_hosts: "status demo_os ''/etc/hosts'' = Inr regular_file"
  by (simp add: status_def demo_os_def demo_nodes_def)

lemma demo_status_missing: "status demo_os ''/definitely/missing'' = Inr file_not_found"
  by (simp add: status_def demo_os_def demo_nodes_def)

lemma demo_status_srv: "status demo_os ''/srv'' = Inr directory_file"
  by (simp add: status_def demo_os_def demo_nodes_def)


lemma demo_status_root: "status demo_os ''/root'' = Inr directory_file"
  by (simp add: status_def demo_os_def demo_nodes_def)

lemma demo_status_usb: "status demo_os ''/mnt/usb'' = Inr directory_file"
  by (simp add: status_def demo_os_def demo_nodes_def)

lemma demo_status_shadow: "status demo_os ''/etc/shadow'' = Inr regular_file"
  by (simp add: status_def demo_os_def demo_nodes_def)

lemma demo_status_blob: "status demo_os ''/mnt/usb/blob'' = Inr regular_file"
  by (simp add: status_def demo_os_def demo_nodes_def)

lemma demo_status_new: "status demo_os ''/tmp/new.txt'' = Inr file_not_found"
  by (simp add: status_def demo_os_def demo_nodes_def)

lemma demo_iterator_root:
  "directory_iterator demo_os ''/root'' = [Inl (filesystem_error ''Permission denied'')]"
  by (simp add: directory_iterator_def demo_os_def demo_nodes_def path_append_def)

lemma demo_iterator_usb:
  "directory_iterator demo_os ''/mnt/usb''
     = map Inr [''/mnt/usb/x''] @ Inl (filesystem_error ''Input/output error'') # [Inr ''/mnt/usb/y'']"
  by (simp add: directory_iterator_def demo_os_def demo_nodes_def path_append_def)

lemma demo_events_missing:
  "nodes demo_os ''/definitely/missing'' = Some n \<Longrightarrow> payload n = Directory evs e \<Longrightarrow>
     evs = map Entry []"
  by (simp add: demo_os_def demo_nodes_def)

lemma demo_events_hosts:
  "nodes demo_os ''/etc/hosts'' = Some n \<Longrightarrow> payload n = Directory evs e \<Longrightarrow>
     evs = map Entry []"
  by (auto simp: demo_os_def demo_nodes_def)

lemma demo_events_srv:
  "nodes demo_os ''/srv'' = Some n \<Longrightarrow> payload n = Directory evs e \<Longrightarrow>
     evs = map Entry [''a'', ''b'', ''c'']"
  by (auto simp: demo_os_def demo_nodes_def)

lemma demo_open_shadow: "ifstream_open demo_os ''/etc/shadow'' = None"
  by (simp add: ifstream_open_def demo_os_def demo_nodes_def may_access_def has_bit_def)

lemma demo_open_blob: "ifstream_open demo_os ''/mnt/usb/blob'' = Some (4, [])"
  by (simp add: ifstream_open_def demo_os_def demo_nodes_def may_access_def has_bit_def)

lemma demo_read_missing:
  "readFile demo_os ''/definitely/missing'' ''before'' = Inr (Status 1 ''0'', ''before'')"
  by (simp add: readFile_def pathExists_def fs_exists_def demo_status_missing ok_def)

lemma demo_read_shadow:
  "readFile demo_os ''/etc/shadow'' ''before''
     = Inr (Status 1 ''Could not open file for reading'', ''before'')"
  by (simp add: readFile_def pathExists_def fs_exists_def demo_status_shadow demo_open_shadow ok_def)

lemma demo_read_blob:
  "readFile demo_os ''/mnt/usb/blob'' ''before'' = Inr (Status 1 ''Could not read file'', ''before'')"
  by (simp add: readFile_def pathExists_def fs_exists_def demo_status_blob demo_open_blob ok_def
      narrow_int_def)

lemmas demo_defs = demo_os_def demo_nodes_def

lemmas write_defs = writeTextFile_def sys_open_def sys_chmod_def sys_write_def sys_close_def
  lowest_free_def may_access_def has_bit_def

lemma demo_write_hidden:
  "fst (writeTextFile demo_os ''/tmp/new.txt'' ''hi'' 128 True) = Status 0 ''OK''"
  by (simp add: write_defs demo_defs)

lemma demo_write_plain:
  "fst (writeTextFile demo_os ''/tmp/new.txt'' ''hi'' 420 True) = Status 0 ''OK''"
  by (simp add: write_defs demo_defs)

lemma demo_write_first:
  "fst (writeTextFile demo_os ''/tmp/new.txt'' ''hello '' 420 True) = Status 0 ''OK''"
  by (simp add: write_defs demo_defs)

lemma demo_write_second:
  "fst (writeTextFile (snd (writeTextFile demo_os ''/tmp/new.txt'' ''hello '' 420 True))
          ''/tmp/new.txt'' ''world'' 420 True) = Status 0 ''OK''"
  by (simp add: write_defs demo_defs)

lemma demo_doc: "demo_read_xml demo_xml_partial = Inr demo_tree_partial"
  by (simp add: demo_read_xml_def)

lemma demo_partial_users: "get_child demo_tree_partial [''tomcat-users''] = Inr demo_users"
  by (simp add: get_child_def demo_tree_partial_def)

lemma demo_users_split: "children demo_users = [(''user'', demo_alice)] @ (''user'', demo_bob) # []"
  by (simp add: demo_users_def)

lemma demo_alice_complete: "\<forall>t \<in> set (user_elements [(''user'', demo_alice)]). user_complete t"
  by (simp add: user_elements_def user_complete_def attribute_def demo_alice_def)

lemma demo_bob_defective: "\<not> user_complete demo_bob"
  by (simp add: user_complete_def attribute_def demo_bob_def)

lemma demo_alice_credential:
  "map credential_of (user_elements [(''user'', demo_alice)]) = [(''alice'', ''secret1'')]"
  by (simp add: user_elements_def credential_of_def attribute_def demo_alice_def)











section \<open>Path queries\<close>








section \<open>Listing a directory\<close>

lemma list_loop_entries: "list_loop (map Inr ps) results = (None, results @ ps)"
  by (induction ps arbitrary: results) simp_all

lemma list_loop_fault:
  "list_loop (map Inr ps @ Inl e # rest) results = (Some e, results @ ps)"
  by (induction ps arbitrary: results) simp_all

lemma list_loop_extends: "\<exists>new. snd (list_loop xs results) = results @ new"
proof (induction xs results rule: list_loop.induct)
  case (1 results)
  show ?case by simp
next
  case (2 p rest results)
  then obtain new where "snd (list_loop rest (results @ [p])) = (results @ [p]) @ new" by blast
  then have "snd (list_loop (Inr p # rest) results) = results @ (p # new)" by simp
  then show ?case by blast
next
  case (3 e rest results)
  show ?case by simp
qed

lemma listFilesInDirectory_extends:
  "\<exists>new. snd (listFilesInDirectory s P results) = results @ new"
proof -
  obtain new where n: "snd (list_loop (directory_iterator s P) results) = results @ new"
    using list_loop_extends by blast
  show ?thesis
    using n
    by (cases "list_loop (directory_iterator s P) results")
       (auto simp: listFilesInDirectory_def split: sum.splits option.splits)
qed

text \<open>
  C8, as amended. Let the status query on \<open>P\<close> raise no error and answer \<open>t\<close>, and
  let the iteration of \<open>P\<close>, when \<open>P\<close> is a directory, raise no error and yield the
  children \<open>names\<close>. Then \<open>listFilesInDirectory\<close> fails with ``Directory not found''
  exactly when \<open>P\<close> does not exist, fails with ``Supplied path is not a directory''
  exactly when \<open>P\<close> exists and is no directory, and otherwise succeeds with the full
  path of every direct child appended to \<open>results\<close>, in the order of the iteration.
\<close>

theorem listFilesInDirectory_cases:
  assumes "status s P = Inr t"
    and "\<And>n evs e. nodes s P = Some n \<Longrightarrow> payload n = Directory evs e \<Longrightarrow> evs = map Entry names"
  shows "listFilesInDirectory s P results =
           (if t = file_not_found then (Status 1 ''Directory not found'', results)
            else if t = regular_file then (Status 1 ''Supplied path is not a directory'', results)
            else (Status 0 ''OK'', results @ map (path_append P) names)) \<and>
         (message (fst (listFilesInDirectory s P results)) = ''Directory not found''
            \<longleftrightarrow> t = file_not_found) \<and>
         (message (fst (listFilesInDirectory s P results)) = ''Supplied path is not a directory''
            \<longleftrightarrow> t = regular_file) \<and>
         (ok (fst (listFilesInDirectory s P results)) \<longleftrightarrow> t = directory_file)"
proof -
  have r: "listFilesInDirectory s P results =
           (if t = file_not_found then (Status 1 ''Directory not found'', results)
            else if t = regular_file then (Status 1 ''Supplied path is not a directory'', results)
            else (Status 0 ''OK'', results @ map (path_append P) names))"
  proof (cases t)
    case file_not_found
    with assms(1) show ?thesis
      by (simp add: listFilesInDirectory_def fs_exists_def)
  next
    case regular_file
    with assms(1) show ?thesis
      by (simp add: listFilesInDirectory_def fs_exists_def is_directory_def)
  next
    case directory_file
    with assms(1) obtain n evs e where n: "nodes s P = Some n" "payload n = Directory evs e"
      by (auto simp: status_def split: if_splits option.splits payload.splits)
    with assms(2) have "evs = map Entry names" by blast
    with n have it: "directory_iterator s P = map Inr (map (path_append P) names)"
      by (simp add: directory_iterator_def)
    have loop: "list_loop (directory_iterator s P) results
                  = (None, results @ map (path_append P) names)"
      unfolding it by (rule list_loop_entries)
    from directory_file assms(1) loop show ?thesis
      by (simp add: listFilesInDirectory_def fs_exists_def is_directory_def)
  qed
  show ?thesis
    unfolding r by (cases t) (simp_all add: ok_def)
qed

theorem listFilesInDirectory_cases_witness:
  "listFilesInDirectory demo_os ''/definitely/missing'' [''keep'']
     = (Status 1 ''Directory not found'', [''keep'']) \<and>
   listFilesInDirectory demo_os ''/etc/hosts'' [''keep'']
     = (Status 1 ''Supplied path is not a directory'', [''keep'']) \<and>
   listFilesInDirectory demo_os ''/srv'' [''keep'']
     = (Status 0 ''OK'', [''keep'', ''/srv/a'', ''/srv/b'', ''/srv/c''])"
proof -
  from listFilesInDirectory_cases
         [where results = "[''keep'']", OF demo_status_missing demo_events_missing]
  have a: "listFilesInDirectory demo_os ''/definitely/missing'' [''keep'']
             = (Status 1 ''Directory not found'', [''keep''])"
    by simp
  from listFilesInDirectory_cases
         [where results = "[''keep'']", OF demo_status_hosts demo_events_hosts]
  have b: "listFilesInDirectory demo_os ''/etc/hosts'' [''keep'']
             = (Status 1 ''Supplied path is not a directory'', [''keep''])"
    by simp
  from listFilesInDirectory_cases
         [where results = "[''keep'']", OF demo_status_srv demo_events_srv]
  have c: "listFilesInDirectory demo_os ''/srv'' [''keep'']
             = (Status 0 ''OK'', [''keep'', ''/srv/a'', ''/srv/b'', ''/srv/c''])"
    by (simp add: path_append_def)
  from a b c show ?thesis by simp
qed

text \<open>
  C8 as stated fails: \<open>/root\<close> exists and is a directory, yet the call does not
  succeed, because opening the directory raises an error that the handler turns into
  a failure.
\<close>

theorem listFilesInDirectory_unreadable_counterexample:
  "fs_exists demo_os ''/root'' = Inr True \<and> is_directory demo_os ''/root'' = Inr True \<and>
   listFilesInDirectory demo_os ''/root'' [] = (Status 1 ''Permission denied'', []) \<and>
   \<not> ok (fst (listFilesInDirectory demo_os ''/root'' []))"
  by (simp add: listFilesInDirectory_def fs_exists_def is_directory_def demo_status_root
      demo_iterator_root ok_def)

text \<open>
  C10. \<open>listFilesInDirectory\<close> only appends to \<open>results\<close>: on every outcome the vector
  after the call is the vector before it followed by new elements. When the iteration
  of an existing directory yields the entries \<open>seen\<close> and then raises \<open>e\<close>, the call
  fails with the text of \<open>e\<close> and \<open>results\<close> holds the earlier elements followed by
  \<open>seen\<close>.
\<close>

theorem listFilesInDirectory_only_appends:
  "(\<exists>new. snd (listFilesInDirectory s P results) = results @ new) \<and>
   (fs_exists s P = Inr True \<and> is_directory s P = Inr True \<and>
    directory_iterator s P = map Inr seen @ Inl e # rest \<longrightarrow>
      listFilesInDirectory s P results = (Status 1 (what e), results @ seen))"
  using listFilesInDirectory_extends [of s P results]
  by (simp add: listFilesInDirectory_def list_loop_fault)

theorem listFilesInDirectory_only_appends_witness:
  "fs_exists demo_os ''/mnt/usb'' = Inr True \<and> is_directory demo_os ''/mnt/usb'' = Inr True \<and>
   listFilesInDirectory demo_os ''/mnt/usb'' [''keep'']
     = (Status 1 ''Input/output error'', [''keep'', ''/mnt/usb/x''])"
proof -
  have present: "fs_exists demo_os ''/mnt/usb'' = Inr True"
    by (simp add: fs_exists_def demo_status_usb)
  have dir: "is_directory demo_os ''/mnt/usb'' = Inr True"
    by (simp add: is_directory_def demo_status_usb)
  from listFilesInDirectory_only_appends
         [of demo_os "''/mnt/usb''" "[''keep'']" "[''/mnt/usb/x'']"
             "filesystem_error ''Input/output error''" "[Inr ''/mnt/usb/y'']"]
       present dir demo_iterator_usb
  have "listFilesInDirectory demo_os ''/mnt/usb'' [''keep'']
          = (Status 1 ''Input/output error'', [''keep'', ''/mnt/usb/x''])"
    by simp
  with present dir show ?thesis by simp
qed


section \<open>Writing and reading files\<close>

subsection \<open>The mode change\<close>







subsection \<open>What the system calls do when they succeed\<close>

lemma sys_open_new:
  assumes "nodes s P = None" and "sys_open s P perms = (fd, s1)" and "0 < fd"
  shows "P \<noteq> [] \<and> lookup_fault s P = None \<and>
         s1 = s\<lparr>nodes := (nodes s)(P \<mapsto> \<lparr>payload = Regular [] False, mode = perms mod 4096,
                                          owner = euid s\<rparr>),
                open_fds := (fd, P) # open_fds s\<rparr>"
  using assms
  by (auto simp: sys_open_def Let_def split: if_splits option.splits)

lemma sys_open_existing:
  assumes "nodes s P = Some n" and "sys_open s P perms = (fd, s1)" and "0 < fd"
  shows "P \<noteq> [] \<and> lookup_fault s P = None \<and> (\<exists>c d. payload n = Regular c d) \<and>
         s1 = s\<lparr>open_fds := (fd, P) # open_fds s\<rparr>"
  using assms
  by (auto simp: sys_open_def Let_def split: if_splits option.splits payload.splits)

lemma sys_chmod_ok:
  assumes "sys_chmod s P perms = (rc, s2)" and "rc = 0"
  shows "\<exists>n. nodes s P = Some n \<and> s2 = s\<lparr>nodes := (nodes s)(P \<mapsto> n\<lparr>mode := perms mod 4096\<rparr>)\<rparr>"
  using assms
  by (auto simp: sys_chmod_def split: if_splits option.splits)

lemma sys_write_all:
  assumes "sys_write s fd buf = (bytes, s3)" and "bytes = int (length buf)"
    and "map_of (open_fds s) fd = Some P" and "nodes s P = Some n" and "payload n = Regular c d"
  shows "s3 = s\<lparr>nodes := (nodes s)(P \<mapsto> n\<lparr>payload := Regular (c @ buf) d\<rparr>),
                free_space := free_space s - length buf\<rparr>"
  using assms
  by (auto simp: sys_write_def Let_def min_def split: if_splits)

subsection \<open>A successful writeTextFile\<close>

lemma writeTextFile_ok_nonempty:
  assumes w: "writeTextFile s P C perms f = (st, s')" and st: "ok st"
  shows "P \<noteq> [] \<and> lookup_fault s P = None"
proof -
  obtain fd s1 where o: "sys_open s P perms = (fd, s1)" by (cases "sys_open s P perms")
  from w st o have "0 < fd"
    by (auto simp: writeTextFile_def ok_def split: if_splits prod.splits)
  with o show ?thesis
    by (auto simp: sys_open_def Let_def split: if_splits option.splits)
qed

lemma writeTextFile_ok_new:
  assumes w: "writeTextFile s P C perms f = (st, s')" and st: "ok st" and new: "nodes s P = None"
  shows "lookup_fault s' = lookup_fault s \<and> euid s' = euid s \<and>
         nodes s' P = Some \<lparr>payload = Regular C False, mode = perms mod 4096, owner = euid s\<rparr>"
proof -
  obtain fd s1 where o: "sys_open s P perms = (fd, s1)" by (cases "sys_open s P perms")
  obtain rc s2 where c: "sys_chmod s1 P perms = (rc, s2)" by (cases "sys_chmod s1 P perms")
  obtain bytes s3 where wr: "sys_write s2 fd C = (bytes, s3)" by (cases "sys_write s2 fd C")
  from w st o c wr have fd: "0 < fd" and rc: "rc = 0" and bytes: "bytes = int (length C)"
    and s': "s' = sys_close s3 fd"
    by (auto simp: writeTextFile_def ok_def split: if_splits)
  from sys_open_new [OF new o fd]
  have s1: "s1 = s\<lparr>nodes := (nodes s)(P \<mapsto> \<lparr>payload = Regular [] False, mode = perms mod 4096,
                                          owner = euid s\<rparr>),
                open_fds := (fd, P) # open_fds s\<rparr>"
    by simp
  from sys_chmod_ok [OF c rc] s1
  have s2: "s2 = s1\<lparr>nodes := (nodes s1)(P \<mapsto> \<lparr>payload = Regular [] False, mode = perms mod 4096,
                                          owner = euid s\<rparr>)\<rparr>"
    by auto
  have "map_of (open_fds s2) fd = Some P" by (simp add: s2 s1)
  moreover have "nodes s2 P = Some \<lparr>payload = Regular [] False, mode = perms mod 4096, owner = euid s\<rparr>"
    by (simp add: s2)
  ultimately have s3: "s3 = s2\<lparr>nodes := (nodes s2)(P \<mapsto> \<lparr>payload = Regular C False, mode = perms mod 4096, owner = euid s\<rparr>),
                free_space := free_space s2 - length C\<rparr>"
    using sys_write_all [OF wr bytes, of P _ "[]" False] by simp
  show ?thesis
    by (simp add: s' s3 s2 s1 sys_close_def)
qed

lemma writeTextFile_ok_existing:
  assumes w: "writeTextFile s P C perms f = (st, s')" and st: "ok st"
    and old: "nodes s P = Some n" "payload n = Regular c d"
  shows "nodes s' P = Some (n\<lparr>payload := Regular (c @ C) d, mode := perms mod 4096\<rparr>)"
proof -
  obtain fd s1 where o: "sys_open s P perms = (fd, s1)" by (cases "sys_open s P perms")
  obtain rc s2 where c: "sys_chmod s1 P perms = (rc, s2)" by (cases "sys_chmod s1 P perms")
  obtain bytes s3 where wr: "sys_write s2 fd C = (bytes, s3)" by (cases "sys_write s2 fd C")
  from w st o c wr have fd: "0 < fd" and rc: "rc = 0" and bytes: "bytes = int (length C)"
    and s': "s' = sys_close s3 fd"
    by (auto simp: writeTextFile_def ok_def split: if_splits)
  from sys_open_existing [OF old(1) o fd]
  have s1: "s1 = s\<lparr>open_fds := (fd, P) # open_fds s\<rparr>" by simp
  from sys_chmod_ok [OF c rc] s1 old
  have s2: "s2 = s1\<lparr>nodes := (nodes s1)(P \<mapsto> n\<lparr>mode := perms mod 4096\<rparr>)\<rparr>"
    by auto
  have "map_of (open_fds s2) fd = Some P" by (simp add: s2 s1)
  moreover have "nodes s2 P = Some (n\<lparr>mode := perms mod 4096\<rparr>)"
    by (simp add: s2)
  moreover have "payload (n\<lparr>mode := perms mod 4096\<rparr>) = Regular c d" using old by simp
  ultimately have s3: "s3 = s2\<lparr>nodes := (nodes s2)(P \<mapsto> n\<lparr>mode := perms mod 4096, payload := Regular (c @ C) d\<rparr>),
                free_space := free_space s2 - length C\<rparr>"
    using sys_write_all [OF wr bytes, of P "n\<lparr>mode := perms mod 4096\<rparr>" c d] by simp
  show ?thesis
    by (simp add: s' s3 s2 s1 sys_close_def)
qed

lemma fresh_no_node:
  "status s P = Inr file_not_found \<Longrightarrow> P \<noteq> [] \<Longrightarrow> lookup_fault s P = None \<Longrightarrow> nodes s P = None"
  by (auto simp: status_def split: option.splits payload.splits)

subsection \<open>The descriptor\<close>

text \<open>
  Once the mode change has succeeded, both ways out of \<open>writeTextFile\<close> close the
  descriptor that \<open>open\<close> returned.
\<close>

lemma writeTextFile_closes_after_write:
  assumes "sys_open s P perms = (fd, s1)" and "0 < fd"
    and "sys_chmod s1 P perms = (0, s2)"
    and "sys_write s2 fd C = (bytes, s3)"
  shows "snd (writeTextFile s P C perms f) = sys_close s3 fd \<and>
         fd \<notin> fst ` set (open_fds (snd (writeTextFile s P C perms f))) \<and>
         close_log (snd (writeTextFile s P C perms f)) = fd # close_log s3"
  using assms by (auto simp: writeTextFile_def sys_close_def)

text \<open>
  C3. Every exit of \<open>writeTextFile\<close> after a successful \<open>open\<close> should release the
  descriptor exactly once. The exit taken when \<open>chmod\<close> fails does not: user 1000
  appends to the world-writable \<open>/tmp/shared.log\<close> of user 0, \<open>open\<close> returns
  descriptor 3, \<open>chmod\<close> is refused, and the call returns with descriptor 3 still in
  the descriptor table and no \<open>close\<close> made.
\<close>

theorem writeTextFile_chmod_failure_leaks_descriptor:
  "sys_open demo_os ''/tmp/shared.log'' 420
     = (3, demo_os\<lparr>open_fds := (3, ''/tmp/shared.log'') # open_fds demo_os\<rparr>) \<and>
   writeTextFile demo_os ''/tmp/shared.log'' ''entry'' 420 True
     = (Status 1 ''Failed to change permissions'',
        demo_os\<lparr>open_fds := (3, ''/tmp/shared.log'') # open_fds demo_os\<rparr>) \<and>
   map_of (open_fds (snd (writeTextFile demo_os ''/tmp/shared.log'' ''entry'' 420 True))) 3
     = Some ''/tmp/shared.log'' \<and>
   close_log (snd (writeTextFile demo_os ''/tmp/shared.log'' ''entry'' 420 True)) = []"
  by (simp add: writeTextFile_def sys_open_def sys_chmod_def demo_os_def demo_nodes_def
      may_access_def has_bit_def lowest_free_def)

subsection \<open>Reading back\<close>

lemma narrow_int_small: "n < 2 ^ 31 \<Longrightarrow> narrow_int n = int n"
proof -
  assume "n < 2 ^ 31"
  then have "int n < 2 ^ 31" by (metis of_nat_less_iff of_nat_numeral of_nat_power)
  then have "(int n + 2 ^ 31) mod 2 ^ 32 = int n + 2 ^ 31" by simp
  then show ?thesis by (simp add: narrow_int_def)
qed

text \<open>
  A readable file of at least \<open>2^31\<close> and less than \<open>2^32\<close> bytes makes \<open>len\<close>
  negative, and the exception of the allocation leaves \<open>readFile\<close>.
\<close>

lemma readFile_long_content:
  assumes "P \<noteq> []" and "lookup_fault s P = None" and "nodes s P = Some n"
    and "payload n = Regular c False" and "may_access s n 4"
    and "2 ^ 31 \<le> length c" and "length c < 2 ^ 32"
  shows "readFile s P content = Inl bad_alloc"
proof -
  have ex: "pathExists s P = Inr (Status 0 ''1'')"
    using assms by (simp add: pathExists_def fs_exists_def status_def)
  have op: "ifstream_open s P = Some (length c, c)"
    using assms by (simp add: ifstream_open_def)
  have lo: "(2::int) ^ 31 \<le> int (length c)"
    using assms(6) by (metis of_nat_le_iff of_nat_numeral of_nat_power)
  have hi: "int (length c) < 2 ^ 32"
    using assms(7) by (metis of_nat_less_iff of_nat_numeral of_nat_power)
  have "(int (length c) + 2 ^ 31) mod 2 ^ 32 = int (length c) + 2 ^ 31 - 2 ^ 32"
    using lo hi by (simp add: mod_pos_geq)
  then have "narrow_int (length c) < 0"
    using hi by (simp add: narrow_int_def)
  then show ?thesis
    by (simp add: readFile_def ex op ok_def)
qed

text \<open>
  C6, as amended. Let \<open>P\<close> not exist, let \<open>writeTextFile(P, C, perms, true)\<close> succeed,
  let \<open>C\<close> be shorter than \<open>2^31\<close> bytes, and let the caller be allowed to read a file
  of its own with mode \<open>perms\<close> (the owner-read bit is set, or the caller is user 0).
  Then \<open>readFile(P)\<close> succeeds and sets \<open>content\<close> to \<open>C\<close>.
\<close>

theorem write_read_roundtrip:
  assumes fresh: "status s P = Inr file_not_found"
    and w: "writeTextFile s P C perms True = (st, s')" and st: "ok st"
    and short: "length C < 2 ^ 31"
    and readable: "euid s = 0 \<or> has_bit (perms mod 4096) 256"
  shows "readFile s' P content = Inr (Status 0 ''OK'', C)"
proof -
  from writeTextFile_ok_nonempty [OF w st] have P: "P \<noteq> []" and lf: "lookup_fault s P = None"
    by simp_all
  from fresh_no_node [OF fresh P lf] have new: "nodes s P = None" .
  from writeTextFile_ok_new [OF w st new]
  have lf': "lookup_fault s' P = None" and uid: "euid s' = euid s"
    and node: "nodes s' P = Some \<lparr>payload = Regular C False, mode = perms mod 4096, owner = euid s\<rparr>"
    using lf by simp_all
  have ex: "pathExists s' P = Inr (Status 0 ''1'')"
    using P lf' node by (simp add: pathExists_def fs_exists_def status_def)
  have op: "ifstream_open s' P = Some (length C, C)"
    using P lf' node uid readable by (auto simp: ifstream_open_def may_access_def)
  show ?thesis
    using short by (simp add: readFile_def ex op ok_def narrow_int_small)
qed

theorem write_read_roundtrip_witness:
  "readFile (snd (writeTextFile demo_os ''/tmp/new.txt'' ''hi'' 420 True)) ''/tmp/new.txt'' ''before''
     = Inr (Status 0 ''OK'', ''hi'')"
proof -
  have w: "writeTextFile demo_os ''/tmp/new.txt'' ''hi'' 420 True
             = (fst (writeTextFile demo_os ''/tmp/new.txt'' ''hi'' 420 True),
                snd (writeTextFile demo_os ''/tmp/new.txt'' ''hi'' 420 True))"
    by simp
  have st: "ok (fst (writeTextFile demo_os ''/tmp/new.txt'' ''hi'' 420 True))"
    by (simp add: demo_write_plain ok_def)
  have short: "length ''hi'' < 2 ^ 31" by simp
  have readable: "euid demo_os = 0 \<or> has_bit (420 mod 4096) 256"
    by (simp add: has_bit_def)
  from write_read_roundtrip [OF demo_status_new w st short readable]
  show ?thesis .
qed

text \<open>
  C6 as stated fails: user 1000 writes the fresh \<open>/tmp/new.txt\<close> with the write-only
  mode 0200; the write succeeds, and \<open>readFile\<close> then cannot open the file.
\<close>

theorem write_read_roundtrip_counterexample:
  "status demo_os ''/tmp/new.txt'' = Inr file_not_found \<and>
   fst (writeTextFile demo_os ''/tmp/new.txt'' ''hi'' 128 True) = Status 0 ''OK'' \<and>
   readFile (snd (writeTextFile demo_os ''/tmp/new.txt'' ''hi'' 128 True)) ''/tmp/new.txt'' ''before''
     = Inr (Status 1 ''Could not open file for reading'', ''before'')"
proof -
  have "readFile (snd (writeTextFile demo_os ''/tmp/new.txt'' ''hi'' 128 True)) ''/tmp/new.txt'' ''before''
     = Inr (Status 1 ''Could not open file for reading'', ''before'')"
    by (simp add: write_defs demo_defs readFile_def pathExists_def fs_exists_def status_def
        ifstream_open_def ok_def)
  with demo_status_new demo_write_hidden show ?thesis by simp
qed

text \<open>
  C7. Two successful \<open>writeTextFile\<close> calls in a row on a path that did not exist, with
  contents \<open>C1\<close> and then \<open>C2\<close>, leave the file holding \<open>C1\<close> followed by \<open>C2\<close>.
\<close>

theorem writeTextFile_appends:
  assumes fresh: "status s P = Inr file_not_found"
    and w1: "writeTextFile s P C1 perms1 f1 = (st1, s1)" and st1: "ok st1"
    and w2: "writeTextFile s1 P C2 perms2 f2 = (st2, s2)" and st2: "ok st2"
  shows "file_contents s2 P = Some (C1 @ C2)"
proof -
  from writeTextFile_ok_nonempty [OF w1 st1] have P: "P \<noteq> []" and lf: "lookup_fault s P = None"
    by simp_all
  from fresh_no_node [OF fresh P lf] have new: "nodes s P = None" .
  from writeTextFile_ok_new [OF w1 st1 new]
  have node: "nodes s1 P = Some \<lparr>payload = Regular C1 False, mode = perms1 mod 4096, owner = euid s\<rparr>"
    by simp
  from writeTextFile_ok_existing [OF w2 st2 node, of C1 False]
  show ?thesis by (simp add: file_contents_def)
qed

theorem writeTextFile_appends_witness:
  "file_contents
     (snd (writeTextFile (snd (writeTextFile demo_os ''/tmp/new.txt'' ''hello '' 420 True))
             ''/tmp/new.txt'' ''world'' 420 True))
     ''/tmp/new.txt'' = Some ''hello world''"
proof -
  have w1: "writeTextFile demo_os ''/tmp/new.txt'' ''hello '' 420 True
             = (fst (writeTextFile demo_os ''/tmp/new.txt'' ''hello '' 420 True),
                snd (writeTextFile demo_os ''/tmp/new.txt'' ''hello '' 420 True))"
    by simp
  have st1: "ok (fst (writeTextFile demo_os ''/tmp/new.txt'' ''hello '' 420 True))"
    by (simp add: demo_write_first ok_def)
  have w2: "writeTextFile (snd (writeTextFile demo_os ''/tmp/new.txt'' ''hello '' 420 True))
              ''/tmp/new.txt'' ''world'' 420 True
             = (fst (writeTextFile (snd (writeTextFile demo_os ''/tmp/new.txt'' ''hello '' 420 True))
                       ''/tmp/new.txt'' ''world'' 420 True),
                snd (writeTextFile (snd (writeTextFile demo_os ''/tmp/new.txt'' ''hello '' 420 True))
                       ''/tmp/new.txt'' ''world'' 420 True))"
    by simp
  have st2: "ok (fst (writeTextFile (snd (writeTextFile demo_os ''/tmp/new.txt'' ''hello '' 420 True))
                       ''/tmp/new.txt'' ''world'' 420 True))"
    by (simp add: demo_write_second ok_def)
  from writeTextFile_appends [OF demo_status_new w1 st1 w2 st2]
  show ?thesis by simp
qed

text \<open>
  C9. Whenever \<open>readFile\<close> returns a failure Status, the out-parameter \<open>content\<close> has
  the value it had before the call.
\<close>

theorem readFile_failure_keeps_content:
  "readFile s path content = Inr (st, content') \<Longrightarrow> \<not> ok st \<Longrightarrow> content' = content"
  by (auto simp: readFile_def Let_def ok_def split: sum.splits if_splits option.splits prod.splits)

theorem readFile_failure_keeps_content_witness:
  "readFile demo_os ''/definitely/missing'' ''before'' = Inr (Status 1 ''0'', ''before'') \<and>
   \<not> ok (Status 1 ''0'') \<and>
   readFile demo_os ''/etc/shadow'' ''before''
     = Inr (Status 1 ''Could not open file for reading'', ''before'') \<and>
   \<not> ok (Status 1 ''Could not open file for reading'') \<and>
   readFile demo_os ''/mnt/usb/blob'' ''before'' = Inr (Status 1 ''Could not read file'', ''before'') \<and>
   \<not> ok (Status 1 ''Could not read file'')"
  using readFile_failure_keeps_content [OF demo_read_missing]
        readFile_failure_keeps_content [OF demo_read_shadow]
        readFile_failure_keeps_content [OF demo_read_blob]
        demo_read_missing demo_read_shadow demo_read_blob
  by (simp add: ok_def)


section \<open>Tomcat credentials\<close>

lemma get_string_attribute:
  "get_string t [''<xmlattr>'', name] =
     (case attribute t name of
        None \<Rightarrow> Inl (ptree_bad_path (''<xmlattr>.'' @ name))
      | Some v \<Rightarrow> Inr v)"
  by (simp add: get_string_def get_child_def attribute_def split: option.splits)

lemma parse_users_complete:
  "\<forall>t \<in> set (user_elements pre). user_complete t \<Longrightarrow>
     parse_users (pre @ rest) credentials
       = parse_users rest (credentials @ map credential_of (user_elements pre))"
proof (induction pre arbitrary: credentials)
  case Nil
  show ?case by (simp add: user_elements_def)
next
  case (Cons c pre)
  obtain k t where c: "c = (k, t)" by (cases c)
  from Cons.prems have rest_ok: "\<forall>t \<in> set (user_elements pre). user_complete t"
    by (simp add: user_elements_def)
  show ?case
  proof (cases "k = ''user''")
    case False
    with Cons.IH [OF rest_ok] c show ?thesis by (simp add: user_elements_def)
  next
    case True
    with Cons.prems c have "user_complete t" by (simp add: user_elements_def)
    then obtain u p where up: "attribute t ''username'' = Some u" "attribute t ''password'' = Some p"
      by (auto simp: user_complete_def)
    with Cons.IH [OF rest_ok] c True show ?thesis
      by (simp add: get_string_attribute user_elements_def credential_of_def)
  qed
qed

lemma parse_users_defective:
  "\<not> user_complete u \<Longrightarrow>
     \<exists>m. parse_users ((''user'', u) # post) credentials = (Some (Status 1 m), credentials)"
  by (auto simp: user_complete_def get_string_attribute split: option.splits)

text \<open>
  C1, as amended. Let the document parse, let \<open>tomcat-users\<close> be found, and let \<open>u\<close>
  be the first \<open>user\<close> element under it that lacks a \<open>username\<close> or a \<open>password\<close>
  attribute. Then \<open>parseTomcatUserConfig\<close> returns a failure Status with code 1, and
  \<open>credentials\<close> holds what it held before the call followed by the credentials of
  the \<open>user\<close> elements before \<open>u\<close>, in document order: they are not taken back.
\<close>

theorem parseTomcatUserConfig_defective_user:
  assumes doc: "read_xml content = Inr tree"
    and users: "get_child tree [''tomcat-users''] = Inr users"
    and split: "children users = pre @ (''user'', u) # post"
    and pre_ok: "\<forall>t \<in> set (user_elements pre). user_complete t"
    and bad: "\<not> user_complete u"
  shows "code (fst (parseTomcatUserConfig read_xml content credentials)) = 1 \<and>
         snd (parseTomcatUserConfig read_xml content credentials)
           = credentials @ map credential_of (user_elements pre)"
proof -
  obtain m where
    "parse_users ((''user'', u) # post) (credentials @ map credential_of (user_elements pre))
       = (Some (Status 1 m), credentials @ map credential_of (user_elements pre))"
    using parse_users_defective [OF bad] by blast
  with parse_users_complete [OF pre_ok]
  have "parse_users (children users) credentials
          = (Some (Status 1 m), credentials @ map credential_of (user_elements pre))"
    by (simp add: split)
  with doc users show ?thesis by (simp add: parseTomcatUserConfig_def)
qed

theorem parseTomcatUserConfig_defective_user_witness:
  "code (fst (parseTomcatUserConfig demo_read_xml demo_xml_partial [(''eve'', ''12345'')])) = 1 \<and>
   snd (parseTomcatUserConfig demo_read_xml demo_xml_partial [(''eve'', ''12345'')])
     = [(''eve'', ''12345''), (''alice'', ''secret1'')]"
  using parseTomcatUserConfig_defective_user
          [where read_xml = demo_read_xml and content = demo_xml_partial
             and credentials = "[(''eve'', ''12345'')]",
           OF demo_doc demo_partial_users demo_users_split demo_alice_complete demo_bob_defective]
  by (simp add: demo_alice_credential)

text \<open>
  C1 as stated fails: the second \<open>user\<close> element of the example document has no
  password, the call fails, and the credential of the first element is in the output
  all the same.
\<close>

theorem parseTomcatUserConfig_partial_counterexample:
  "demo_read_xml demo_xml_partial = Inr demo_tree_partial \<and>
   get_child demo_tree_partial [''tomcat-users''] = Inr demo_users \<and>
   children demo_users = [(''user'', demo_alice), (''user'', demo_bob)] \<and>
   \<not> user_complete demo_bob \<and>
   parseTomcatUserConfig demo_read_xml demo_xml_partial []
     = (Status 1 ''No such node (<xmlattr>.password)'', [(''alice'', ''secret1'')])"
proof -
  have "parseTomcatUserConfig demo_read_xml demo_xml_partial []
          = (Status 1 ''No such node (<xmlattr>.password)'', [(''alice'', ''secret1'')])"
    by (simp add: parseTomcatUserConfig_def demo_doc demo_partial_users
        get_string_attribute attribute_def demo_users_def demo_alice_def demo_bob_def)
  with demo_doc demo_partial_users demo_users_split demo_bob_defective show ?thesis
    by simp
qed

end
